theory Spec2Isabelle
  imports Main "HOL-Library.Word" "HOL-Library.DAList" "HOL-Library.State_Monad"
begin

unbundle bit_operations_syntax

section \<open>Data model of internal/cli/render_fs.go\<close>

text \<open>
  A Go \<open>map[string]V\<close> has unique keys. It is modelled as a distinct association list:
  the type carries the uniqueness of the keys. A nil map is the empty list: indexing it
  misses and ranging over it visits nothing.
\<close>

type_synonym 'v go_map = "(string, 'v) alist"

text \<open>The comma-ok index expression \<open>v, ok := m[k]\<close>: \<open>None\<close> is \<open>ok = false\<close>.\<close>

definition go_index :: "'v go_map \<Rightarrow> string \<Rightarrow> 'v option" where
  "go_index m k = DAList.lookup m k"

text \<open>
  The entries in the order a \<open>range\<close> loop visits them. The runtime picks the order anew
  for every \<open>range\<close> statement; \<open>ord\<close> is its pick for this one. When \<open>ord\<close>
  enumerates the keys, each once, the entries are visited in that order, so every order of
  the keys can be picked; any other \<open>ord\<close> leaves the entries in the order of the list.
\<close>

definition go_range :: "string list \<Rightarrow> 'v go_map \<Rightarrow> (string \<times> 'v) list" where
  "go_range ord m =
     (let xs = DAList.impl_of m in
      if distinct ord \<and> set ord = set (map fst xs)
      then List.map_filter (\<lambda>k. map_option (Pair k) (map_of xs k)) ord
      else xs)"

definition go_keys :: "string list \<Rightarrow> 'v go_map \<Rightarrow> string list" where
  "go_keys ord m = map fst (go_range ord m)"

text \<open>The structs of the source. A Go string is a byte sequence, as \<open>string\<close> is here.\<close>

record PackEntry =
  files :: "string go_map"

record RootEntry =
  conf :: string
  jobs :: "PackEntry go_map"

record RootDir =
  jobs :: "PackEntry go_map"

record JobDir =
  job :: PackEntry

record RenderFS =
  Name :: string
  Content :: string

text \<open>
  The types of the mounting library that the methods read and write: error numbers,
  directory entries, attributes (the integer fields; the time stamps are left out), and
  the read request and response. \<open>Offset\<close> is an int64 and \<open>Size\<close> an int, both
  read as two's complement by \<open>sint\<close>.
\<close>

datatype Errno = ENOENT | EINVAL | EACCES | EIO

datatype DirentType =
  DT_Unknown | DT_Socket | DT_Link | DT_File | DT_Block | DT_Dir | DT_Char | DT_FIFO

record Dirent =
  Inode :: "64 word"
  Type :: DirentType
  Name :: string

record Attr =
  Inode :: "64 word"
  Size :: "64 word"
  Blocks :: "64 word"
  Mode :: "32 word"
  Nlink :: "32 word"
  Uid :: "32 word"
  Gid :: "32 word"
  Rdev :: "32 word"
  BlockSize :: "32 word"

record ReadRequest =
  Dir :: bool
  Offset :: "64 word"
  Size :: "64 word"

record ReadResponse =
  Data :: string

text \<open>The zero values of Go: \<open>var de fuse.Dirent\<close> and a fresh \<open>fuse.Attr\<close>.\<close>

definition Dirent_zero :: Dirent where
  "Dirent_zero = \<lparr>Dirent.Inode = 0, Type = DT_Unknown, Name = ''''\<rparr>"

definition Attr_zero :: Attr where
  "Attr_zero = \<lparr>Attr.Inode = 0, Size = 0, Blocks = 0, Mode = 0, Nlink = 0,
     Uid = 0, Gid = 0, Rdev = 0, BlockSize = 0\<rparr>"

text \<open>
  \<open>os.FileMode\<close> is a uint32. \<open>os.ModeDir\<close> is its top bit, \<open>os.ModePerm\<close> the nine
  permission bits \<open>0o777\<close>. Octal constants are written in decimal: \<open>0o755 = 493\<close>,
  \<open>0o444 = 292\<close> (read), \<open>0o222 = 146\<close> (write), \<open>0o111 = 73\<close> (traverse),
  \<open>0o200 = 128\<close> (write, owner).
\<close>

definition ModeDir :: "32 word" where
  "ModeDir = push_bit 31 1"

definition ModePerm :: "32 word" where
  "ModePerm = 511"

definition perm_read :: "32 word" where
  "perm_read = 292"

definition perm_write :: "32 word" where
  "perm_write = 146"

definition perm_traverse :: "32 word" where
  "perm_traverse = 73"

definition perm_owner_write :: "32 word" where
  "perm_owner_write = 128"

text \<open>
  The values that implement \<open>fs.Node\<close>: a pointer to a \<open>RootDir\<close>, a pointer to a
  \<open>JobDir\<close>, and a \<open>RenderFS\<close>.
\<close>

datatype Node = RootDirNode RootDir | JobDirNode JobDir | RenderFSNode RenderFS

section \<open>The node operations\<close>

text \<open>
  A Go function that returns a value and an error is a pair of the value and
  \<open>Errno option\<close>, \<open>None\<close> for a nil error; a nil node is \<open>None\<close>. A method that
  writes through a pointer argument returns the written record.
\<close>

definition RenderFS_Attr :: "RenderFS \<Rightarrow> Attr \<Rightarrow> Attr \<times> Errno option" where
  "RenderFS_Attr r attr = (attr, None)"

definition RenderFS_Read ::
  "RenderFS \<Rightarrow> ReadRequest \<Rightarrow> ReadResponse \<Rightarrow> ReadResponse \<times> Errno option" where
  "RenderFS_Read r req resp = (resp\<lparr>Data := Content r\<rparr>, None)"

definition RootDir_Lookup :: "RootDir \<Rightarrow> string \<Rightarrow> Node option \<times> Errno option" where
  "RootDir_Lookup d name =
     (case go_index (RootDir.jobs d) name of
        None \<Rightarrow> (None, Some ENOENT)
      | Some found \<Rightarrow> (Some (JobDirNode \<lparr>job = found\<rparr>), None))"

text \<open>The loop of \<open>RootDir.ReadDirAll\<close> over the entries still to visit, with \<open>rV\<close>.\<close>

fun RootDir_ReadDirAll_loop :: "(string \<times> 'v) list \<Rightarrow> Dirent list \<Rightarrow> Dirent list" where
  "RootDir_ReadDirAll_loop [] rV = rV"
| "RootDir_ReadDirAll_loop ((nomen, _) # rest) rV =
     (let de = Dirent_zero;
          de = de\<lparr>Name := nomen\<rparr>;
          de = de\<lparr>Type := DT_Dir\<rparr>
      in RootDir_ReadDirAll_loop rest (rV @ [de]))"

definition RootDir_ReadDirAll :: "string list \<Rightarrow> RootDir \<Rightarrow> Dirent list \<times> Errno option" where
  "RootDir_ReadDirAll ord d =
     (RootDir_ReadDirAll_loop (go_range ord (RootDir.jobs d)) [], None)"

definition RootDir_Attr :: "RootDir \<Rightarrow> Attr \<Rightarrow> Attr \<times> Errno option" where
  "RootDir_Attr d attr = (attr\<lparr>Mode := ModeDir OR 493\<rparr>, None)"

definition JobDir_Attr :: "JobDir \<Rightarrow> Attr \<Rightarrow> Attr \<times> Errno option" where
  "JobDir_Attr d attr = (attr\<lparr>Mode := ModeDir OR 493\<rparr>, None)"

text \<open>The loop of \<open>JobDir.ReadDirAll\<close> over the entries still to visit, with \<open>dirents\<close>.\<close>

fun JobDir_ReadDirAll_loop :: "(string \<times> 'v) list \<Rightarrow> Dirent list \<Rightarrow> Dirent list" where
  "JobDir_ReadDirAll_loop [] dirents = dirents"
| "JobDir_ReadDirAll_loop ((name, _) # rest) dirents =
     (let de = \<lparr>Dirent.Inode = 0, Type = DT_File, Name = name\<rparr>
      in JobDir_ReadDirAll_loop rest (dirents @ [de]))"

definition JobDir_ReadDirAll :: "string list \<Rightarrow> JobDir \<Rightarrow> Dirent list \<times> Errno option" where
  "JobDir_ReadDirAll ord j =
     (JobDir_ReadDirAll_loop (go_range ord (files (job j))) [], None)"

definition RootEntry_Root :: "RootEntry \<Rightarrow> Node option \<times> Errno option" where
  "RootEntry_Root r = (Some (RootDirNode \<lparr>RootDir.jobs = RootEntry.jobs r\<rparr>), None)"

text \<open>
  The method sets. The serving layer calls an operation on a node only when the node's
  type declares it; \<open>None\<close> says that the type does not. \<open>Lookup\<close> is declared on
  \<open>RootDir\<close> alone, \<open>ReadDirAll\<close> on the two directory types, \<open>Read\<close> on
  \<open>RenderFS\<close> alone, \<open>Attr\<close> on all three.
\<close>

fun Node_Attr :: "Node \<Rightarrow> Attr \<Rightarrow> Attr \<times> Errno option" where
  "Node_Attr (RootDirNode d) attr = RootDir_Attr d attr"
| "Node_Attr (JobDirNode j) attr = JobDir_Attr j attr"
| "Node_Attr (RenderFSNode r) attr = RenderFS_Attr r attr"

fun Node_Lookup :: "Node \<Rightarrow> string \<Rightarrow> (Node option \<times> Errno option) option" where
  "Node_Lookup (RootDirNode d) name = Some (RootDir_Lookup d name)"
| "Node_Lookup (JobDirNode j) name = None"
| "Node_Lookup (RenderFSNode r) name = None"

fun Node_ReadDirAll :: "string list \<Rightarrow> Node \<Rightarrow> (Dirent list \<times> Errno option) option" where
  "Node_ReadDirAll ord (RootDirNode d) = Some (RootDir_ReadDirAll ord d)"
| "Node_ReadDirAll ord (JobDirNode j) = Some (JobDir_ReadDirAll ord j)"
| "Node_ReadDirAll ord (RenderFSNode r) = None"

fun Node_Read ::
  "Node \<Rightarrow> ReadRequest \<Rightarrow> ReadResponse \<Rightarrow> (ReadResponse \<times> Errno option) option" where
  "Node_Read (RootDirNode d) req resp = None"
| "Node_Read (JobDirNode j) req resp = None"
| "Node_Read (RenderFSNode r) req resp = Some (RenderFS_Read r req resp)"

text \<open>
  \<open>Lookup\<close> has a pointer receiver. Reading \<open>d.jobs\<close> through a nil receiver is the one
  statement of the method that can panic: indexing a map, nil or not, cannot. The receiver
  is \<open>None\<close> for nil. \<open>Root_receiver\<close> is the pointer \<open>&RootDir{jobs: r.jobs}\<close> that
  \<open>Root\<close> builds, the only \<open>RootDir\<close> pointer the source ever makes.
\<close>

datatype 'a outcome = Returns 'a | Panics

definition RootDir_Lookup_method ::
  "RootDir option \<Rightarrow> string \<Rightarrow> (Node option \<times> Errno option) outcome" where
  "RootDir_Lookup_method receiver name =
     (case receiver of
        None \<Rightarrow> Panics
      | Some d \<Rightarrow> Returns (RootDir_Lookup d name))"

definition Root_receiver :: "RootEntry \<Rightarrow> RootDir option" where
  "Root_receiver r = Some \<lparr>RootDir.jobs = RootEntry.jobs r\<rparr>"


section \<open>The read that the specification describes\<close>

text \<open>
  The specification's \<open>Read(offset, requestedSize)\<close> on content \<open>c\<close>, written from its
  words for comparison with \<open>RenderFS_Read\<close>: a negative offset is an invalid argument,
  an offset at or beyond the length reads nothing, and otherwise the result is
  \<open>c[offset : min(offset + requestedSize, len(c))]\<close>.
\<close>

definition spec_Read :: "string \<Rightarrow> int \<Rightarrow> int \<Rightarrow> string \<times> Errno option" where
  "spec_Read c offset requestedSize =
     (if offset < 0 then ([], Some EINVAL)
      else if int (length c) \<le> offset then ([], None)
      else (take (nat requestedSize) (drop (nat offset) c), None))"

text \<open>What a read hands back to its caller: the data of the response and the error.\<close>

definition Read_result :: "ReadResponse \<times> Errno option \<Rightarrow> string \<times> Errno option" where
  "Read_result p = (Data (fst p), snd p)"

section \<open>The maps as shared objects\<close>

text \<open>
  A Go map value is a reference to a map object, and copying a struct that holds a map
  copies the reference: the \<open>RootDir\<close> that \<open>Root\<close> builds shares the group map with
  the \<open>RootEntry\<close>, and the \<open>JobDir\<close> that \<open>Lookup\<close> builds shares the file map with
  the tree. What a method does to the maps is therefore visible to everyone who holds
  them. The store below makes this explicit: a map is held at an address, the structs hold
  references (\<open>None\<close> is the nil map), and every method that touches a map is a program
  that takes the store and returns it. The methods of the sections above take the maps by
  value; the two views are shown to give the same answers further below.
\<close>

type_synonym addr = nat

type_synonym mapref = "addr option"

record PackEntry_ref =
  files_ref :: mapref

record RootEntry_ref =
  entry_conf :: string
  entry_jobs :: mapref

record RootDir_ref =
  jobs_ref :: mapref

record JobDir_ref =
  job_ref :: PackEntry_ref

record Heap =
  jobs_objects :: "addr \<Rightarrow> PackEntry_ref go_map option"
  files_objects :: "addr \<Rightarrow> string go_map option"

text \<open>The map a reference stands for. The nil map has no entries.\<close>

definition jobs_at :: "Heap \<Rightarrow> mapref \<Rightarrow> PackEntry_ref go_map" where
  "jobs_at h r =
     (case r of
        None \<Rightarrow> DAList.empty
      | Some a \<Rightarrow> (case jobs_objects h a of None \<Rightarrow> DAList.empty | Some m \<Rightarrow> m))"

definition files_at :: "Heap \<Rightarrow> mapref \<Rightarrow> string go_map" where
  "files_at h r =
     (case r of
        None \<Rightarrow> DAList.empty
      | Some a \<Rightarrow> (case files_objects h a of None \<Rightarrow> DAList.empty | Some m \<Rightarrow> m))"

text \<open>
  The statements of Go on maps, as programs on the store: the comma-ok index, the
  \<open>range\<close> loop's visit of the entries, and, for contrast, the assignment
  \<open>m[k] = v\<close> to a map that is not nil, which no method of the source contains.
\<close>

type_synonym 'a prog = "(Heap, 'a) state"

definition index_jobs :: "mapref \<Rightarrow> string \<Rightarrow> PackEntry_ref option prog" where
  "index_jobs r k =
     do { h \<leftarrow> State_Monad.get; State_Monad.return (go_index (jobs_at h r) k) }"

definition range_jobs :: "string list \<Rightarrow> mapref \<Rightarrow> (string \<times> PackEntry_ref) list prog" where
  "range_jobs ord r =
     do { h \<leftarrow> State_Monad.get; State_Monad.return (go_range ord (jobs_at h r)) }"

definition range_files :: "string list \<Rightarrow> mapref \<Rightarrow> (string \<times> string) list prog" where
  "range_files ord r =
     do { h \<leftarrow> State_Monad.get; State_Monad.return (go_range ord (files_at h r)) }"

definition assign_files :: "addr \<Rightarrow> string \<Rightarrow> string \<Rightarrow> unit prog" where
  "assign_files a k v =
     State_Monad.update
       (\<lambda>h. h\<lparr>files_objects := (files_objects h)(a \<mapsto> DAList.update k v (files_at h (Some a)))\<rparr>)"

text \<open>The nodes, holding references, and the methods of the source as programs.\<close>

datatype Node_ref = RootDir_at RootDir_ref | JobDir_at JobDir_ref | RenderFS_at RenderFS

definition RenderFS_Attr_h :: "RenderFS \<Rightarrow> Attr \<Rightarrow> (Attr \<times> Errno option) prog" where
  "RenderFS_Attr_h r attr = State_Monad.return (attr, None)"

definition RenderFS_Read_h ::
  "RenderFS \<Rightarrow> ReadRequest \<Rightarrow> ReadResponse \<Rightarrow> (ReadResponse \<times> Errno option) prog" where
  "RenderFS_Read_h r req resp = State_Monad.return (resp\<lparr>Data := Content r\<rparr>, None)"

definition RootDir_Lookup_h ::
  "RootDir_ref \<Rightarrow> string \<Rightarrow> (Node_ref option \<times> Errno option) prog" where
  "RootDir_Lookup_h d name =
     do { found \<leftarrow> index_jobs (jobs_ref d) name;
          case found of
            None \<Rightarrow> State_Monad.return (None, Some ENOENT)
          | Some e \<Rightarrow> State_Monad.return (Some (JobDir_at \<lparr>job_ref = e\<rparr>), None) }"

definition RootDir_ReadDirAll_h ::
  "string list \<Rightarrow> RootDir_ref \<Rightarrow> (Dirent list \<times> Errno option) prog" where
  "RootDir_ReadDirAll_h ord d =
     do { entries \<leftarrow> range_jobs ord (jobs_ref d);
          State_Monad.return (RootDir_ReadDirAll_loop entries [], None) }"

definition RootDir_Attr_h :: "RootDir_ref \<Rightarrow> Attr \<Rightarrow> (Attr \<times> Errno option) prog" where
  "RootDir_Attr_h d attr = State_Monad.return (attr\<lparr>Mode := ModeDir OR 493\<rparr>, None)"

definition JobDir_Attr_h :: "JobDir_ref \<Rightarrow> Attr \<Rightarrow> (Attr \<times> Errno option) prog" where
  "JobDir_Attr_h d attr = State_Monad.return (attr\<lparr>Mode := ModeDir OR 493\<rparr>, None)"

definition JobDir_ReadDirAll_h ::
  "string list \<Rightarrow> JobDir_ref \<Rightarrow> (Dirent list \<times> Errno option) prog" where
  "JobDir_ReadDirAll_h ord j =
     do { entries \<leftarrow> range_files ord (files_ref (job_ref j));
          State_Monad.return (JobDir_ReadDirAll_loop entries [], None) }"

definition RootEntry_Root_h :: "RootEntry_ref \<Rightarrow> (Node_ref option \<times> Errno option) prog" where
  "RootEntry_Root_h r =
     State_Monad.return (Some (RootDir_at \<lparr>jobs_ref = entry_jobs r\<rparr>), None)"

fun Node_Attr_h :: "Node_ref \<Rightarrow> Attr \<Rightarrow> (Attr \<times> Errno option) prog" where
  "Node_Attr_h (RootDir_at d) attr = RootDir_Attr_h d attr"
| "Node_Attr_h (JobDir_at j) attr = JobDir_Attr_h j attr"
| "Node_Attr_h (RenderFS_at r) attr = RenderFS_Attr_h r attr"

fun Node_Lookup_h ::
  "Node_ref \<Rightarrow> string \<Rightarrow> (Node_ref option \<times> Errno option) prog option" where
  "Node_Lookup_h (RootDir_at d) name = Some (RootDir_Lookup_h d name)"
| "Node_Lookup_h (JobDir_at j) name = None"
| "Node_Lookup_h (RenderFS_at r) name = None"

fun Node_ReadDirAll_h ::
  "string list \<Rightarrow> Node_ref \<Rightarrow> (Dirent list \<times> Errno option) prog option" where
  "Node_ReadDirAll_h ord (RootDir_at d) = Some (RootDir_ReadDirAll_h ord d)"
| "Node_ReadDirAll_h ord (JobDir_at j) = Some (JobDir_ReadDirAll_h ord j)"
| "Node_ReadDirAll_h ord (RenderFS_at r) = None"

fun Node_Read_h ::
  "Node_ref \<Rightarrow> ReadRequest \<Rightarrow> ReadResponse \<Rightarrow> (ReadResponse \<times> Errno option) prog option" where
  "Node_Read_h (RootDir_at d) req resp = None"
| "Node_Read_h (JobDir_at j) req resp = None"
| "Node_Read_h (RenderFS_at r) req resp = Some (RenderFS_Read_h r req resp)"

text \<open>The file nodes among the nodes.\<close>

fun is_RenderFS_at :: "Node_ref \<Rightarrow> bool" where
  "is_RenderFS_at (RenderFS_at _) = True"
| "is_RenderFS_at _ = False"

text \<open>
  What a reference stands for in a store, as the map values of the first sections: the
  structs with every reference replaced by the map it refers to.
\<close>

lift_definition go_map_values :: "('v \<Rightarrow> 'w) \<Rightarrow> (string, 'v) alist \<Rightarrow> (string, 'w) alist"
  is "\<lambda>f. AList.map_ran (\<lambda>_. f)"
  by (simp add: distinct_map_ran)

definition PackEntry_of :: "Heap \<Rightarrow> PackEntry_ref \<Rightarrow> PackEntry" where
  "PackEntry_of h e = \<lparr>files = files_at h (files_ref e)\<rparr>"

definition tree_of :: "Heap \<Rightarrow> mapref \<Rightarrow> PackEntry go_map" where
  "tree_of h r = go_map_values (PackEntry_of h) (jobs_at h r)"

fun Node_of :: "Heap \<Rightarrow> Node_ref \<Rightarrow> Node" where
  "Node_of h (RootDir_at d) = RootDirNode \<lparr>RootDir.jobs = tree_of h (jobs_ref d)\<rparr>"
| "Node_of h (JobDir_at j) = JobDirNode \<lparr>job = PackEntry_of h (job_ref j)\<rparr>"
| "Node_of h (RenderFS_at r) = RenderFSNode r"

section \<open>A session of node operations\<close>

text \<open>
  What the serving layer does with the tree it was handed: it obtains the root from
  \<open>Root\<close>, and then calls the node operations, in any order, on the nodes it has
  obtained so far. \<open>heap\<close> is the store with the maps of the tree, \<open>nodes\<close> the nodes
  obtained, addressed by their position. Every call runs on the store the call before it
  left, and a successful \<open>Lookup\<close> adds its node. A listing request carries the order
  the runtime picks for the \<open>range\<close> loop of that call.
\<close>

record Session =
  heap :: Heap
  nodes :: "Node_ref list"

datatype Request =
    AttrRequest nat Attr
  | LookupRequest nat string
  | ReadDirAllRequest nat "string list"
  | ReadDataRequest nat ReadRequest ReadResponse

datatype Reply =
    AttrReply Attr "Errno option"
  | LookupReply "Node_ref option" "Errno option"
  | ReadDirAllReply "Dirent list" "Errno option"
  | ReadDataReply ReadResponse "Errno option"
  | NotDeclared
  | NoSuchNode

fun Request_node :: "Request \<Rightarrow> nat" where
  "Request_node (AttrRequest i _) = i"
| "Request_node (LookupRequest i _) = i"
| "Request_node (ReadDirAllRequest i _) = i"
| "Request_node (ReadDataRequest i _ _) = i"

definition Session_start :: "Heap \<Rightarrow> RootEntry_ref \<Rightarrow> Session" where
  "Session_start h r =
     (case run_state (RootEntry_Root_h r) h of
        ((None, err), h') \<Rightarrow> \<lparr>heap = h', nodes = []\<rparr>
      | ((Some n, err), h') \<Rightarrow> \<lparr>heap = h', nodes = [n]\<rparr>)"

fun Session_serve :: "Session \<Rightarrow> Request \<Rightarrow> Reply \<times> Session" where
  "Session_serve s (AttrRequest i attr) =
     (if length (nodes s) \<le> i then (NoSuchNode, s)
      else case run_state (Node_Attr_h (nodes s ! i) attr) (heap s) of
             ((attr', err), h') \<Rightarrow> (AttrReply attr' err, s\<lparr>heap := h'\<rparr>))"
| "Session_serve s (LookupRequest i name) =
     (if length (nodes s) \<le> i then (NoSuchNode, s)
      else case Node_Lookup_h (nodes s ! i) name of
             None \<Rightarrow> (NotDeclared, s)
           | Some p \<Rightarrow>
               (case run_state p (heap s) of
                  ((None, err), h') \<Rightarrow> (LookupReply None err, s\<lparr>heap := h'\<rparr>)
                | ((Some n, err), h') \<Rightarrow>
                    (LookupReply (Some n) err, \<lparr>heap = h', nodes = nodes s @ [n]\<rparr>)))"
| "Session_serve s (ReadDirAllRequest i ord) =
     (if length (nodes s) \<le> i then (NoSuchNode, s)
      else case Node_ReadDirAll_h ord (nodes s ! i) of
             None \<Rightarrow> (NotDeclared, s)
           | Some p \<Rightarrow>
               (case run_state p (heap s) of
                  ((des, err), h') \<Rightarrow> (ReadDirAllReply des err, s\<lparr>heap := h'\<rparr>)))"
| "Session_serve s (ReadDataRequest i req resp) =
     (if length (nodes s) \<le> i then (NoSuchNode, s)
      else case Node_Read_h (nodes s ! i) req resp of
             None \<Rightarrow> (NotDeclared, s)
           | Some p \<Rightarrow>
               (case run_state p (heap s) of
                  ((resp', err), h') \<Rightarrow> (ReadDataReply resp' err, s\<lparr>heap := h'\<rparr>)))"

fun Session_serve_all :: "Session \<Rightarrow> Request list \<Rightarrow> Session" where
  "Session_serve_all s [] = s"
| "Session_serve_all s (rq # rqs) = Session_serve_all (snd (Session_serve s rq)) rqs"

text \<open>
  The group-to-file-to-content mapping that is observed in a store through the reference
  to the group map: the content of file \<open>f\<close> of group \<open>g\<close>, if there is one.
\<close>

definition observed :: "Heap \<Rightarrow> mapref \<Rightarrow> string \<Rightarrow> string \<Rightarrow> string option" where
  "observed h r g f =
     (case go_index (jobs_at h r) g of
        None \<Rightarrow> None
      | Some e \<Rightarrow> go_index (files_at h (files_ref e)) f)"

section \<open>The command\<close>

text \<open>
  \<open>Run\<close> talks to the world through calls whose code is not in \<open>render_fs.go\<close>:
  the argument parser \<open>Init\<close> of the base command, the file system, the TOML decoder
  and the mounting library. They are parameters here: \<open>World\<close> fixes what each of them
  answers. \<open>Init\<close> is called with \<open>WithExactArgs(2, args)\<close> and the command line has
  two positional arguments, the input document and the mount point: \<open>Init\<close> fails, or
  leaves exactly these two in \<open>c.args\<close>. \<open>fuse.Unmount\<close> returns an error like the
  other calls; \<open>Unmount_ok\<close> says whether it is nil. \<open>Run\<close> never looks at it: the
  \<open>defer\<close> statement drops what the call returns.
\<close>

record World =
  Init_result :: "string list \<Rightarrow> (string \<times> string) option"
  Open_ok :: bool
  ReadAll_result :: "string option"
  Unmarshal_result :: "PackEntry go_map option"
  Mount_ok :: bool
  ServeContext_ok :: bool
  Unmount_ok :: bool

text \<open>The calls \<open>Run\<close> makes, in the order it makes them.\<close>

datatype Event =
    EvInit "string list"
  | EvErrorWithContext
  | EvInfo
  | EvWithInterrupt
  | EvOpen string
  | EvReadAll
  | EvUnmarshal string
  | EvPrintln
  | EvMount string
  | EvServeContext RootEntry
  | EvUnmount string
  | EvConnClose
  | EvFpClose
  | EvCloser

text \<open>
  The activation of \<open>Run\<close>: the calls made so far, and the deferred calls, the last
  deferred first. Returning runs the deferred calls in that order.
\<close>

record Frame =
  trace :: "Event list"
  deferred :: "Event list"

definition emit :: "Event \<Rightarrow> Frame \<Rightarrow> Frame" where
  "emit e fr = fr\<lparr>trace := trace fr @ [e]\<rparr>"

definition defer_call :: "Event \<Rightarrow> Frame \<Rightarrow> Frame" where
  "defer_call e fr = fr\<lparr>deferred := e # deferred fr\<rparr>"

definition return_code :: "int \<Rightarrow> Frame \<Rightarrow> int \<times> Event list" where
  "return_code code fr = (code, trace fr @ deferred fr)"

definition Run :: "World \<Rightarrow> string list \<Rightarrow> int \<times> Event list" where
  "Run w args =
     (let fr = emit (EvInit args) \<lparr>trace = [], deferred = []\<rparr> in
      case Init_result w args of
        None \<Rightarrow> return_code 1 (emit EvInfo (emit EvErrorWithContext fr))
      | Some (rootFile, mountpoint) \<Rightarrow>
     (let fr = defer_call EvCloser (emit EvWithInterrupt fr);
          fr = emit (EvOpen rootFile) fr in
      if \<not> Open_ok w then return_code 1 (emit EvInfo (emit EvErrorWithContext fr))
      else
     (let fr = defer_call EvFpClose fr;
          fr = emit EvReadAll fr in
      case ReadAll_result w of
        None \<Rightarrow> return_code 1 (emit EvInfo (emit EvErrorWithContext fr))
      | Some fpContents \<Rightarrow>
     (let fr = emit (EvUnmarshal fpContents) fr in
      case Unmarshal_result w of
        None \<Rightarrow> return_code 1 (emit EvInfo (emit EvErrorWithContext fr))
      | Some parsedBuilds \<Rightarrow>
     (let fr = emit EvPrintln fr;
          fr = emit (EvMount mountpoint) fr in
      if \<not> Mount_ok w then return_code 1 (emit EvErrorWithContext fr)
      else
     (let fr = defer_call EvConnClose fr;
          fr = defer_call (EvUnmount mountpoint) fr;
          fr = emit (EvServeContext \<lparr>conf = rootFile, RootEntry.jobs = parsedBuilds\<rparr>) fr in
      if \<not> ServeContext_ok w then return_code 1 (emit EvErrorWithContext fr)
      else return_code 0 fr))))))"

fun is_Unmarshal :: "Event \<Rightarrow> bool" where
  "is_Unmarshal (EvUnmarshal _) = True"
| "is_Unmarshal _ = False"

fun is_Mount :: "Event \<Rightarrow> bool" where
  "is_Mount (EvMount _) = True"
| "is_Mount _ = False"

fun is_ServeContext :: "Event \<Rightarrow> bool" where
  "is_ServeContext (EvServeContext _) = True"
| "is_ServeContext _ = False"

fun is_Unmount :: "Event \<Rightarrow> bool" where
  "is_Unmount (EvUnmount _) = True"
| "is_Unmount _ = False"

text \<open>The paths that were mounted and the paths that were unmounted, in the order of the calls.\<close>

fun mount_paths :: "Event list \<Rightarrow> string list" where
  "mount_paths [] = []"
| "mount_paths (EvMount p # es) = p # mount_paths es"
| "mount_paths (_ # es) = mount_paths es"

fun unmount_paths :: "Event list \<Rightarrow> string list" where
  "unmount_paths [] = []"
| "unmount_paths (EvUnmount p # es) = p # unmount_paths es"
| "unmount_paths (_ # es) = unmount_paths es"

text \<open>The mount call was made and succeeded: the session is in the Mounted state.\<close>

definition mounted :: "World \<Rightarrow> string list \<Rightarrow> bool" where
  "mounted w args = (list_ex is_Mount (snd (Run w args)) \<and> Mount_ok w)"

text \<open>
  The specification's condition for exit code 0, in its words: the session serves, that
  is, the serve loop runs and ends without error, and it unmounts cleanly.
\<close>

definition spec_serves_and_unmounts_cleanly :: "World \<Rightarrow> string list \<Rightarrow> bool" where
  "spec_serves_and_unmounts_cleanly w args =
     (list_ex is_ServeContext (snd (Run w args)) \<and> ServeContext_ok w
      \<and> list_ex is_Unmount (snd (Run w args)) \<and> Unmount_ok w)"

section \<open>The content trees of the scenarios\<close>

definition group_of :: "string \<Rightarrow> string \<Rightarrow> PackEntry" where
  "group_of f c = \<lparr>files = DAList.update f c DAList.empty\<rparr>"

definition scenario_A :: "PackEntry go_map" where
  "scenario_A =
     DAList.update ''db'' (group_of ''job.conf'' ''B'')
       (DAList.update ''web'' (group_of ''job.conf'' ''A'') DAList.empty)"

definition world_ok :: World where
  "world_ok =
     \<lparr>Init_result = (\<lambda>args. case args of [a, b] \<Rightarrow> Some (a, b) | _ \<Rightarrow> None),
      Open_ok = True,
      ReadAll_result = Some ''[web]'',
      Unmarshal_result = Some scenario_A,
      Mount_ok = True,
      ServeContext_ok = True,
      Unmount_ok = True\<rparr>"

text \<open>
  The tree of Scenario A in a store: the group map at address 0, the file maps of
  \<open>web\<close> and \<open>db\<close> at addresses 1 and 2. A session on it, and requests that walk it.
\<close>

definition heap_A :: Heap where
  "heap_A =
     \<lparr>jobs_objects =
        Map.empty(0 \<mapsto> DAList.update ''db'' \<lparr>files_ref = Some 2\<rparr>
                           (DAList.update ''web'' \<lparr>files_ref = Some 1\<rparr> DAList.empty)),
      files_objects =
        Map.empty(1 \<mapsto> DAList.update ''job.conf'' ''A'' DAList.empty,
                  2 \<mapsto> DAList.update ''job.conf'' ''B'' DAList.empty)\<rparr>"

definition session_A :: Session where
  "session_A = Session_start heap_A \<lparr>entry_conf = ''packs.toml'', entry_jobs = Some 0\<rparr>"

definition requests_A :: "Request list" where
  "requests_A =
     [LookupRequest 0 ''web'', ReadDirAllRequest 1 [''job.conf''], AttrRequest 1 Attr_zero,
      LookupRequest 1 ''job.conf'', ReadDirAllRequest 0 [''web'', ''db''],
      ReadDataRequest 1 \<lparr>Dir = False, Offset = 0, Size = 1\<rparr> \<lparr>Data = ''''\<rparr>]"

section \<open>Maps and the listing loops\<close>

lemma map_filter_entries_keys:
  assumes "set ord \<subseteq> fst ` set xs"
  shows "map fst (List.map_filter (\<lambda>k. map_option (Pair k) (map_of xs k)) ord) = ord"
  using assms
proof (induction ord)
  case Nil
  then show ?case by simp
next
  case (Cons k ks)
  then obtain v where "map_of xs k = Some v"
    by (cases "map_of xs k") (auto simp: map_of_eq_None_iff)
  with Cons show ?case by simp
qed

lemma map_filter_entries_char:
  "set (List.map_filter (\<lambda>k. map_option (Pair k) (map_of xs k)) ord)
     = {(k, v). k \<in> set ord \<and> map_of xs k = Some v}"
  by (induction ord) (auto split: option.splits)

lemma map_filter_entries_set:
  assumes "distinct (map fst xs)" and "set ord = fst ` set xs"
  shows "set (List.map_filter (\<lambda>k. map_option (Pair k) (map_of xs k)) ord) = set xs"
  using assms by (auto simp: map_filter_entries_char rev_image_eqI)

lemma set_go_range: "set (go_range ord m) = set (DAList.impl_of m)"
  using map_filter_entries_set [of "DAList.impl_of m" ord] impl_of_distinct [of m]
  by (simp add: go_range_def Let_def)

lemma distinct_go_keys: "distinct (go_keys ord m)"
  using map_filter_entries_keys [of ord "DAList.impl_of m"] impl_of_distinct [of m]
  by (simp add: go_keys_def go_range_def Let_def)

lemma go_index_map_of: "go_index m = map_of (go_range ord m)"
proof -
  have "map_of (go_range ord m) = map_of (DAList.impl_of m)"
    using distinct_go_keys [of ord m] impl_of_distinct [of m] set_go_range [of ord m]
    by (intro map_of_inject_set [THEN iffD2]) (simp_all add: go_keys_def)
  then show ?thesis
    by (intro ext) (simp add: go_index_def DAList.lookup.rep_eq)
qed

lemma set_go_keys: "set (go_keys ord m) = dom (go_index m)"
  by (simp add: go_index_map_of [of m ord] go_keys_def dom_map_of_conv_image_fst)

text \<open>Every order of the keys is the order of some visit.\<close>

lemma go_keys_picked:
  assumes "distinct ord" and "set ord = dom (go_index m)"
  shows "go_keys ord m = ord"
proof -
  have "set ord = set (map fst (DAList.impl_of m))"
    using assms(2)
    by (simp add: go_index_def [abs_def] DAList.lookup.rep_eq dom_map_of_conv_image_fst)
  with assms(1) map_filter_entries_keys [of ord "DAList.impl_of m"] show ?thesis
    by (simp add: go_keys_def go_range_def Let_def)
qed

lemma go_range_empty: "go_range ord DAList.empty = []"
  by (simp add: go_range_def DAList.empty.rep_eq)

lemma RootDir_ReadDirAll_loop_map:
  "RootDir_ReadDirAll_loop xs rV =
     rV @ map (\<lambda>kv. \<lparr>Dirent.Inode = 0, Type = DT_Dir, Name = fst kv\<rparr>) xs"
  by (induction xs arbitrary: rV) (auto simp: Dirent_zero_def)

lemma JobDir_ReadDirAll_loop_map:
  "JobDir_ReadDirAll_loop xs dirents =
     dirents @ map (\<lambda>kv. \<lparr>Dirent.Inode = 0, Type = DT_File, Name = fst kv\<rparr>) xs"
  by (induction xs arbitrary: dirents) auto

lemma RootDir_ReadDirAll_names:
  "map Dirent.Name (fst (RootDir_ReadDirAll ord d)) = go_keys ord (RootDir.jobs d)"
  by (simp add: RootDir_ReadDirAll_def RootDir_ReadDirAll_loop_map go_keys_def comp_def)

lemma JobDir_ReadDirAll_names:
  "map Dirent.Name (fst (JobDir_ReadDirAll ord j)) = go_keys ord (files (job j))"
  by (simp add: JobDir_ReadDirAll_def JobDir_ReadDirAll_loop_map go_keys_def comp_def)

lemma RootDir_ReadDirAll_types:
  "list_all (\<lambda>de. Type de = DT_Dir) (fst (RootDir_ReadDirAll ord d))"
  by (simp add: RootDir_ReadDirAll_def RootDir_ReadDirAll_loop_map list_all_iff)

lemma JobDir_ReadDirAll_types:
  "list_all (\<lambda>de. Type de = DT_File) (fst (JobDir_ReadDirAll ord j))"
  by (simp add: JobDir_ReadDirAll_def JobDir_ReadDirAll_loop_map list_all_iff)

lemma go_index_empty: "go_index DAList.empty k = None"
  by (simp add: go_index_def)

lemma go_index_update:
  "go_index (DAList.update k v m) k' = (if k = k' then Some v else go_index m k')"
  by (simp add: go_index_def DAList.lookup_update)

lemma go_range_eval:
  "go_range ord m =
     (if distinct ord \<and> set ord = set (map fst (DAList.impl_of m))
      then List.map_filter (\<lambda>k. map_option (Pair k) (map_of (DAList.impl_of m) k)) ord
      else DAList.impl_of m)"
  by (simp add: go_range_def Let_def)

lemmas go_eval = go_index_empty go_index_update go_range_eval DAList.update.rep_eq
  DAList.empty.rep_eq group_of_def scenario_A_def

lemma JobDir_ReadDirAll_member:
  assumes "go_index (files (job j)) f = Some c"
  shows "\<lparr>Dirent.Inode = 0, Type = DT_File, Name = f\<rparr> \<in> set (fst (JobDir_ReadDirAll ord j))"
proof -
  from assms have "(f, c) \<in> set (go_range ord (files (job j)))"
    by (simp add: go_index_map_of [of _ ord] map_of_SomeD)
  then show ?thesis
    by (force simp: JobDir_ReadDirAll_def JobDir_ReadDirAll_loop_map)
qed

text \<open>
  Scenario A: listing the root yields exactly \<open>web\<close> and \<open>db\<close>, as directories, in the
  order of the visit.
\<close>

lemma scenario_A_listing:
  "RootDir_ReadDirAll [''web'', ''db''] \<lparr>RootDir.jobs = scenario_A\<rparr> =
     ([\<lparr>Dirent.Inode = 0, Type = DT_Dir, Name = ''web''\<rparr>,
       \<lparr>Dirent.Inode = 0, Type = DT_Dir, Name = ''db''\<rparr>], None)"
  "RootDir_ReadDirAll [''db'', ''web''] \<lparr>RootDir.jobs = scenario_A\<rparr> =
     ([\<lparr>Dirent.Inode = 0, Type = DT_Dir, Name = ''db''\<rparr>,
       \<lparr>Dirent.Inode = 0, Type = DT_Dir, Name = ''web''\<rparr>], None)"
  by (simp_all add: RootDir_ReadDirAll_def go_eval Dirent_zero_def insert_commute)

section \<open>Lookup and read along a path\<close>

text \<open>
  C1, as amended. For every group \<open>g\<close> of the content tree and every file \<open>f\<close> of
  \<open>g\<close> with content \<open>c\<close>: the root-level \<open>Lookup(g)\<close> returns, without error, the
  group directory node over \<open>g\<close>'s own file mapping, in which \<open>f\<close> has content \<open>c\<close> and
  which \<open>ReadDirAll\<close> lists, in whatever order it visits the files, as an entry \<open>f\<close>
  tagged File; and a File node with name \<open>f\<close> and content \<open>c\<close> answers
  \<open>Read(0, len(c))\<close> with exactly \<open>c\<close> and no error.
\<close>

theorem Lookup_group_and_Read_file:
  assumes "go_index (RootDir.jobs d) g = Some e"
    and "go_index (files e) f = Some c"
  shows "RootDir_Lookup d g = (Some (JobDirNode \<lparr>job = e\<rparr>), None)
    \<and> go_index (files (job \<lparr>job = e\<rparr>)) f = Some c
    \<and> \<lparr>Dirent.Inode = 0, Type = DT_File, Name = f\<rparr>
         \<in> set (fst (JobDir_ReadDirAll ord \<lparr>job = e\<rparr>))
    \<and> RenderFS_Read \<lparr>RenderFS.Name = f, Content = c\<rparr>
         \<lparr>Dir = dr, Offset = 0, Size = word_of_nat (length c)\<rparr> resp
       = (resp\<lparr>Data := c\<rparr>, None)"
proof -
  have "RootDir_Lookup d g = (Some (JobDirNode \<lparr>job = e\<rparr>), None)"
    using assms(1) by (simp add: RootDir_Lookup_def)
  moreover have "\<lparr>Dirent.Inode = 0, Type = DT_File, Name = f\<rparr>
         \<in> set (fst (JobDir_ReadDirAll ord \<lparr>job = e\<rparr>))"
    using JobDir_ReadDirAll_member [of "\<lparr>job = e\<rparr>" f c ord] assms(2)
    by simp
  moreover have "RenderFS_Read \<lparr>RenderFS.Name = f, Content = c\<rparr>
         \<lparr>Dir = dr, Offset = 0, Size = word_of_nat (length c)\<rparr> resp
       = (resp\<lparr>Data := c\<rparr>, None)"
    by (simp add: RenderFS_Read_def)
  ultimately show ?thesis using assms(2) by simp
qed

theorem Lookup_group_and_Read_file_witness:
  "go_index (RootDir.jobs \<lparr>RootDir.jobs = scenario_A\<rparr>) ''db'' = Some (group_of ''job.conf'' ''B'')
   \<and> go_index (files (group_of ''job.conf'' ''B'')) ''job.conf'' = Some ''B''
   \<and> RootDir_Lookup \<lparr>RootDir.jobs = scenario_A\<rparr> ''db''
       = (Some (JobDirNode \<lparr>job = group_of ''job.conf'' ''B''\<rparr>), None)
   \<and> \<lparr>Dirent.Inode = 0, Type = DT_File, Name = ''job.conf''\<rparr>
         \<in> set (fst (JobDir_ReadDirAll [''job.conf''] \<lparr>job = group_of ''job.conf'' ''B''\<rparr>))
   \<and> RenderFS_Read \<lparr>RenderFS.Name = ''job.conf'', Content = ''B''\<rparr>
         \<lparr>Dir = False, Offset = 0, Size = 1\<rparr> \<lparr>Data = ''''\<rparr>
       = (\<lparr>Data = ''B''\<rparr>, None)"
proof -
  have h1: "go_index (RootDir.jobs \<lparr>RootDir.jobs = scenario_A\<rparr>) ''db''
      = Some (group_of ''job.conf'' ''B'')"
    by (simp add: go_index_empty go_index_update scenario_A_def)
  have h2: "go_index (files (group_of ''job.conf'' ''B'')) ''job.conf'' = Some ''B''"
    by (simp add: go_index_empty go_index_update group_of_def)
  from h1 h2
    Lookup_group_and_Read_file [OF h1 h2, of "[''job.conf'']" False "\<lparr>Data = ''''\<rparr>"]
  show ?thesis by simp
qed

text \<open>
  C1 as stated fails on the tree of Scenario A. The file \<open>web/job.conf\<close> has content
  \<open>A\<close> and the root-level \<open>Lookup\<close> of \<open>web\<close> returns the group directory node, but
  \<open>JobDir\<close> declares \<open>Attr\<close> and \<open>ReadDirAll\<close> only: there is no group-level
  \<open>Lookup\<close> that could return a File node.
\<close>

theorem chained_Lookup_counterexample:
  "RootDir_Lookup \<lparr>RootDir.jobs = scenario_A\<rparr> ''web''
     = (Some (JobDirNode \<lparr>job = group_of ''job.conf'' ''A''\<rparr>), None)
   \<and> go_index (files (group_of ''job.conf'' ''A'')) ''job.conf'' = Some ''A''
   \<and> Node_Lookup (JobDirNode \<lparr>job = group_of ''job.conf'' ''A''\<rparr>) ''job.conf'' = None"
  by (simp add: RootDir_Lookup_def go_index_empty go_index_update scenario_A_def group_of_def)

section \<open>Reading a file node\<close>

text \<open>
  C2, as amended. For every File node and every offset and requested size, \<open>Read\<close>
  puts the whole content into the response and returns no error. That is the sub-range
  the specification asks for exactly when the offset is 0 and the requested size is at
  least the length of the content, or the content is empty and the offset is not
  negative.
\<close>

theorem Read_whole_content:
  "RenderFS_Read r req resp = (resp\<lparr>Data := Content r\<rparr>, None)
   \<and> (Read_result (RenderFS_Read r req resp)
        = spec_Read (Content r) (sint (Offset req)) (sint (ReadRequest.Size req))
      \<longleftrightarrow> (sint (Offset req) = 0 \<and> int (length (Content r)) \<le> sint (ReadRequest.Size req))
          \<or> (Content r = [] \<and> 0 \<le> sint (Offset req)))"
proof -
  let ?c = "Content r" and ?off = "sint (Offset req)" and ?sz = "sint (ReadRequest.Size req)"
  have code: "Read_result (RenderFS_Read r req resp) = (?c, None)"
    by (simp add: RenderFS_Read_def Read_result_def)
  have "(?c, None) = spec_Read ?c ?off ?sz
      \<longleftrightarrow> (?off = 0 \<and> int (length ?c) \<le> ?sz) \<or> (?c = [] \<and> 0 \<le> ?off)"
  proof (cases "?off < 0")
    case True
    then show ?thesis by (simp add: spec_Read_def)
  next
    case nonneg: False
    show ?thesis
    proof (cases "int (length ?c) \<le> ?off")
      case True
      with nonneg show ?thesis by (auto simp: spec_Read_def)
    next
      case inside: False
      have "?c = take (nat ?sz) (drop (nat ?off) ?c) \<longleftrightarrow> ?off = 0 \<and> int (length ?c) \<le> ?sz"
      proof
        assume eq: "?c = take (nat ?sz) (drop (nat ?off) ?c)"
        have "length (take (nat ?sz) (drop (nat ?off) ?c)) = min (length ?c - nat ?off) (nat ?sz)"
          by simp
        with eq have "length ?c = min (length ?c - nat ?off) (nat ?sz)" by metis
        with inside nonneg show "?off = 0 \<and> int (length ?c) \<le> ?sz" by auto
      next
        assume "?off = 0 \<and> int (length ?c) \<le> ?sz"
        then have "?off = 0" and "length ?c \<le> nat ?sz" by linarith+
        then show "?c = take (nat ?sz) (drop (nat ?off) ?c)" by simp
      qed
      with inside nonneg show ?thesis by (auto simp: spec_Read_def)
    qed
  qed
  with code show ?thesis by (simp add: RenderFS_Read_def)
qed

theorem Read_whole_content_witness:
  "RenderFS_Read \<lparr>RenderFS.Name = ''job.conf'', Content = ''AB''\<rparr>
       \<lparr>Dir = False, Offset = 0, Size = 2\<rparr> \<lparr>Data = ''''\<rparr> = (\<lparr>Data = ''AB''\<rparr>, None)
   \<and> Read_result (RenderFS_Read \<lparr>RenderFS.Name = ''job.conf'', Content = ''AB''\<rparr>
       \<lparr>Dir = False, Offset = 0, Size = 2\<rparr> \<lparr>Data = ''''\<rparr>)
     = spec_Read ''AB'' 0 2"
  using Read_whole_content [of "\<lparr>RenderFS.Name = ''job.conf'', Content = ''AB''\<rparr>"
      "\<lparr>Dir = False, Offset = 0, Size = 2\<rparr>" "\<lparr>Data = ''''\<rparr>"]
  by (simp add: RenderFS_Read_def)

text \<open>
  C2 as stated fails on the content \<open>AB\<close>. At offset 1 and size 1 the sub-range is
  \<open>B\<close>, at offset 2 it is empty, and at offset -1 the specification asks for an
  invalid-argument error; the code answers all three with \<open>AB\<close> and no error.
\<close>

theorem Read_ignores_range_counterexample:
  "RenderFS_Read \<lparr>RenderFS.Name = ''job.conf'', Content = ''AB''\<rparr>
       \<lparr>Dir = False, Offset = 1, Size = 1\<rparr> \<lparr>Data = ''''\<rparr> = (\<lparr>Data = ''AB''\<rparr>, None)
   \<and> spec_Read ''AB'' (sint (1 :: 64 word)) (sint (1 :: 64 word)) = (''B'', None)
   \<and> RenderFS_Read \<lparr>RenderFS.Name = ''job.conf'', Content = ''AB''\<rparr>
       \<lparr>Dir = False, Offset = 2, Size = 1\<rparr> \<lparr>Data = ''''\<rparr> = (\<lparr>Data = ''AB''\<rparr>, None)
   \<and> spec_Read ''AB'' (sint (2 :: 64 word)) (sint (1 :: 64 word)) = ('''', None)
   \<and> RenderFS_Read \<lparr>RenderFS.Name = ''job.conf'', Content = ''AB''\<rparr>
       \<lparr>Dir = False, Offset = - 1, Size = 1\<rparr> \<lparr>Data = ''''\<rparr> = (\<lparr>Data = ''AB''\<rparr>, None)
   \<and> spec_Read ''AB'' (sint (- 1 :: 64 word)) (sint (1 :: 64 word)) = ('''', Some EINVAL)"
  by (simp add: RenderFS_Read_def spec_Read_def)

section \<open>Listing and lookup\<close>

text \<open>
  C4. Whatever order the runtime picks for the visit, \<open>ReadDirAll\<close> on the root
  returns, without error, one entry per group name and no other: the names of the entries
  are the keys of the group mapping, each once, and every entry is tagged Directory. \<open>ReadDirAll\<close> on a group node does the same for the file
  names of the group, tagged File. For an empty mapping at either level the result is the
  empty sequence and no error.
\<close>

theorem ReadDirAll_entries:
  "map Dirent.Name (fst (RootDir_ReadDirAll ord d)) = go_keys ord (RootDir.jobs d)
   \<and> distinct (map Dirent.Name (fst (RootDir_ReadDirAll ord d)))
   \<and> set (map Dirent.Name (fst (RootDir_ReadDirAll ord d))) = dom (go_index (RootDir.jobs d))
   \<and> list_all (\<lambda>de. Type de = DT_Dir) (fst (RootDir_ReadDirAll ord d))
   \<and> snd (RootDir_ReadDirAll ord d) = None
   \<and> map Dirent.Name (fst (JobDir_ReadDirAll ord j)) = go_keys ord (files (job j))
   \<and> distinct (map Dirent.Name (fst (JobDir_ReadDirAll ord j)))
   \<and> set (map Dirent.Name (fst (JobDir_ReadDirAll ord j))) = dom (go_index (files (job j)))
   \<and> list_all (\<lambda>de. Type de = DT_File) (fst (JobDir_ReadDirAll ord j))
   \<and> snd (JobDir_ReadDirAll ord j) = None
   \<and> RootDir_ReadDirAll ord \<lparr>RootDir.jobs = DAList.empty\<rparr> = ([], None)
   \<and> JobDir_ReadDirAll ord \<lparr>job = \<lparr>files = DAList.empty\<rparr>\<rparr> = ([], None)"
proof -
  have r: "snd (RootDir_ReadDirAll ord d) = None" "snd (JobDir_ReadDirAll ord j) = None"
    by (simp_all add: RootDir_ReadDirAll_def JobDir_ReadDirAll_def)
  have e: "RootDir_ReadDirAll ord \<lparr>RootDir.jobs = DAList.empty\<rparr> = ([], None)"
    "JobDir_ReadDirAll ord \<lparr>job = \<lparr>files = DAList.empty\<rparr>\<rparr> = ([], None)"
    by (simp_all add: RootDir_ReadDirAll_def JobDir_ReadDirAll_def go_range_empty)
  show ?thesis
    using r e RootDir_ReadDirAll_types [of ord d] JobDir_ReadDirAll_types [of ord j]
    by (simp only: RootDir_ReadDirAll_names JobDir_ReadDirAll_names distinct_go_keys
        set_go_keys simp_thms)
qed

lemma RootEntry_Root_receiver:
  "RootEntry_Root r = (map_option RootDirNode (Root_receiver r), None)"
  by (simp add: RootEntry_Root_def Root_receiver_def)

text \<open>A nil receiver would make \<open>Lookup\<close> panic, whatever the name.\<close>

lemma RootDir_Lookup_nil_receiver: "RootDir_Lookup_method None name = Panics"
  by (simp add: RootDir_Lookup_method_def)




text \<open>
  C10. For every content tree and every name, the root-level \<open>Lookup\<close> succeeds, that
  is, returns a node and no error, if and only if the listing of the root, in whatever
  order it visits the groups, has an entry with that name; and both hold if and only if
  the name is a key of the group mapping.
\<close>

theorem RootDir_Lookup_iff_listed:
  "((fst (RootDir_Lookup d name) \<noteq> None \<and> snd (RootDir_Lookup d name) = None)
      = (name \<in> set (map Dirent.Name (fst (RootDir_ReadDirAll ord d)))))
   \<and> ((name \<in> set (map Dirent.Name (fst (RootDir_ReadDirAll ord d))))
      = (name \<in> dom (go_index (RootDir.jobs d))))"
  by (auto simp: RootDir_ReadDirAll_names set_go_keys RootDir_Lookup_def split: option.splits)

section \<open>Attributes\<close>

text \<open>
  C3, as amended. For every File node, \<open>Attr\<close> returns no error and leaves the
  attributes exactly as it received them: it sets neither a mode nor a size. On zeroed
  attributes the mode it reports is 0 and the size is 0, whatever the content.
\<close>

theorem RenderFS_Attr_unchanged:
  "RenderFS_Attr r attr = (attr, None)
   \<and> Mode (fst (RenderFS_Attr r Attr_zero)) = 0
   \<and> Attr.Size (fst (RenderFS_Attr r Attr_zero)) = 0"
  by (simp add: RenderFS_Attr_def Attr_zero_def)

text \<open>
  C3 as stated fails on the file with content \<open>A\<close>: the size reported on zeroed
  attributes is not the length 1 of the content, and the mode has no read bit.
\<close>

theorem RenderFS_Attr_size_counterexample:
  "Attr.Size (fst (RenderFS_Attr \<lparr>RenderFS.Name = ''job.conf'', Content = ''A''\<rparr> Attr_zero))
     \<noteq> word_of_nat (length (Content \<lparr>RenderFS.Name = ''job.conf'', Content = ''A''\<rparr>))
   \<and> Mode (fst (RenderFS_Attr \<lparr>RenderFS.Name = ''job.conf'', Content = ''A''\<rparr> Attr_zero))
       AND perm_read = 0"
  by (simp add: RenderFS_Attr_def Attr_zero_def)

lemma dir_mode_bits:
  "(ModeDir OR 493) AND ModeDir = ModeDir"
  "(ModeDir OR 493) AND ModePerm = 493"
  "(ModeDir OR 493) AND perm_read = perm_read"
  "(ModeDir OR 493) AND perm_traverse = perm_traverse"
  "(ModeDir OR 493) AND perm_write = perm_owner_write"
  "perm_owner_write \<noteq> 0"
  by (simp_all add: ModeDir_def ModePerm_def perm_read_def perm_traverse_def perm_write_def
      perm_owner_write_def)

text \<open>
  C6, as amended. For every directory node, root-level and per-group, \<open>Attr\<close> returns
  no error and sets the mode to \<open>os.ModeDir | 0o755\<close>, leaving the other attributes as
  they were: the directory bit is set, the permission bits are \<open>0o755\<close>, they grant
  read and traverse to owner, group and others, and of the three write bits exactly the
  owner's is set.
\<close>

theorem Dir_Attr_mode:
  "RootDir_Attr d attr = (attr\<lparr>Mode := ModeDir OR 493\<rparr>, None)
   \<and> JobDir_Attr j attr = (attr\<lparr>Mode := ModeDir OR 493\<rparr>, None)
   \<and> Mode (fst (RootDir_Attr d attr)) = Mode (fst (JobDir_Attr j attr))
   \<and> Mode (fst (RootDir_Attr d attr)) AND ModeDir = ModeDir
   \<and> Mode (fst (RootDir_Attr d attr)) AND ModePerm = 493
   \<and> Mode (fst (RootDir_Attr d attr)) AND perm_read = perm_read
   \<and> Mode (fst (RootDir_Attr d attr)) AND perm_traverse = perm_traverse
   \<and> Mode (fst (RootDir_Attr d attr)) AND perm_write = perm_owner_write"
  by (simp add: RootDir_Attr_def JobDir_Attr_def dir_mode_bits)

text \<open>
  C6 as stated fails on both directory nodes of Scenario A: the mode they report has a
  write bit set, the owner's.
\<close>

theorem Dir_Attr_write_bit_counterexample:
  "Mode (fst (RootDir_Attr \<lparr>RootDir.jobs = scenario_A\<rparr> Attr_zero)) AND perm_write \<noteq> 0
   \<and> Mode (fst (JobDir_Attr \<lparr>job = group_of ''job.conf'' ''A''\<rparr> Attr_zero)) AND perm_write \<noteq> 0"
  by (simp add: RootDir_Attr_def JobDir_Attr_def dir_mode_bits)

section \<open>The mount session of the command\<close>

text \<open>The calls of \<open>Run\<close> and its exit code, for each answer of the world.\<close>

lemma Run_cases:
  "Run w args =
    (case Init_result w args of
       None \<Rightarrow> (1, [EvInit args, EvErrorWithContext, EvInfo])
     | Some (rootFile, mountpoint) \<Rightarrow>
       (if \<not> Open_ok w then
         (1, [EvInit args, EvWithInterrupt, EvOpen rootFile, EvErrorWithContext, EvInfo,
              EvCloser])
       else (case ReadAll_result w of
         None \<Rightarrow>
           (1, [EvInit args, EvWithInterrupt, EvOpen rootFile, EvReadAll,
                EvErrorWithContext, EvInfo, EvFpClose, EvCloser])
       | Some fpContents \<Rightarrow>
         (case Unmarshal_result w of
            None \<Rightarrow>
              (1, [EvInit args, EvWithInterrupt, EvOpen rootFile, EvReadAll,
                   EvUnmarshal fpContents, EvErrorWithContext, EvInfo, EvFpClose, EvCloser])
          | Some parsedBuilds \<Rightarrow>
              (if \<not> Mount_ok w then
                (1, [EvInit args, EvWithInterrupt, EvOpen rootFile, EvReadAll,
                     EvUnmarshal fpContents, EvPrintln, EvMount mountpoint,
                     EvErrorWithContext, EvFpClose, EvCloser])
              else (if \<not> ServeContext_ok w then
                (1, [EvInit args, EvWithInterrupt, EvOpen rootFile, EvReadAll,
                     EvUnmarshal fpContents, EvPrintln, EvMount mountpoint,
                     EvServeContext \<lparr>conf = rootFile, RootEntry.jobs = parsedBuilds\<rparr>,
                     EvErrorWithContext,
                     EvUnmount mountpoint, EvConnClose, EvFpClose, EvCloser])
              else
                (0, [EvInit args, EvWithInterrupt, EvOpen rootFile, EvReadAll,
                     EvUnmarshal fpContents, EvPrintln, EvMount mountpoint,
                     EvServeContext \<lparr>conf = rootFile, RootEntry.jobs = parsedBuilds\<rparr>,
                     EvUnmount mountpoint, EvConnClose, EvFpClose, EvCloser])))))))"
  by (simp add: Run_def emit_def defer_call_def return_code_def Let_def
      split: option.splits prod.splits)

text \<open>
  C7. Once the mount call has succeeded, whatever the serve loop answers, an error or a
  return after cancellation included: the path mounted is the mount point of the command
  line, the serve loop was started after the mount and before the unmount,
  \<open>fuse.Unmount\<close> is called exactly once, on the path that was mounted, and after it
  only the connection, the file and the interrupt handler are closed. When the mount call
  fails, or is never reached, no serve loop starts and no unmount is attempted.
\<close>

theorem Run_unmount_guaranteed:
  "(mounted w args \<longrightarrow>
      (case Init_result w args of
         None \<Rightarrow> False
       | Some (rootFile, mountpoint) \<Rightarrow>
           mount_paths (snd (Run w args)) = [mountpoint]
           \<and> unmount_paths (snd (Run w args)) = [mountpoint]
           \<and> EvMount mountpoint
               \<in> set (takeWhile (\<lambda>e. \<not> is_ServeContext e) (snd (Run w args)))
           \<and> list_ex is_ServeContext
               (takeWhile (\<lambda>e. e \<noteq> EvUnmount mountpoint) (snd (Run w args)))
           \<and> dropWhile (\<lambda>e. e \<noteq> EvUnmount mountpoint) (snd (Run w args))
               = [EvUnmount mountpoint, EvConnClose, EvFpClose, EvCloser]))
   \<and> (\<not> mounted w args \<longrightarrow>
      \<not> list_ex is_ServeContext (snd (Run w args))
      \<and> unmount_paths (snd (Run w args)) = [])"
  by (simp add: mounted_def Run_cases split: option.splits prod.splits)

theorem Run_unmount_guaranteed_witness:
  "mounted (world_ok\<lparr>ServeContext_ok := False\<rparr>) [''packs.toml'', ''mnt'']
   \<and> fst (Run (world_ok\<lparr>ServeContext_ok := False\<rparr>) [''packs.toml'', ''mnt'']) = 1
   \<and> mount_paths (snd (Run (world_ok\<lparr>ServeContext_ok := False\<rparr>) [''packs.toml'', ''mnt'']))
       = [''mnt'']
   \<and> unmount_paths (snd (Run (world_ok\<lparr>ServeContext_ok := False\<rparr>) [''packs.toml'', ''mnt'']))
       = [''mnt'']
   \<and> dropWhile (\<lambda>e. e \<noteq> EvUnmount ''mnt'')
        (snd (Run (world_ok\<lparr>ServeContext_ok := False\<rparr>) [''packs.toml'', ''mnt'']))
       = [EvUnmount ''mnt'', EvConnClose, EvFpClose, EvCloser]
   \<and> \<not> mounted (world_ok\<lparr>Mount_ok := False\<rparr>) [''packs.toml'', ''mnt'']
   \<and> mount_paths (snd (Run (world_ok\<lparr>Mount_ok := False\<rparr>) [''packs.toml'', ''mnt'']))
       = [''mnt'']
   \<and> \<not> list_ex is_ServeContext (snd (Run (world_ok\<lparr>Mount_ok := False\<rparr>) [''packs.toml'', ''mnt'']))
   \<and> unmount_paths (snd (Run (world_ok\<lparr>Mount_ok := False\<rparr>) [''packs.toml'', ''mnt''])) = []"
proof -
  have i: "Init_result (world_ok\<lparr>ServeContext_ok := False\<rparr>) [''packs.toml'', ''mnt'']
      = Some (''packs.toml'', ''mnt'')"
    by (simp add: world_ok_def)
  have m: "mounted (world_ok\<lparr>ServeContext_ok := False\<rparr>) [''packs.toml'', ''mnt'']"
    by (simp add: mounted_def Run_cases world_ok_def)
  have n: "\<not> mounted (world_ok\<lparr>Mount_ok := False\<rparr>) [''packs.toml'', ''mnt'']"
    by (simp add: mounted_def)
  have c: "fst (Run (world_ok\<lparr>ServeContext_ok := False\<rparr>) [''packs.toml'', ''mnt'']) = 1"
    "mount_paths (snd (Run (world_ok\<lparr>Mount_ok := False\<rparr>) [''packs.toml'', ''mnt'']))
       = [''mnt'']"
    by (simp_all add: Run_cases world_ok_def)
  from i m n c
    Run_unmount_guaranteed [of "world_ok\<lparr>ServeContext_ok := False\<rparr>" "[''packs.toml'', ''mnt'']"]
    Run_unmount_guaranteed [of "world_ok\<lparr>Mount_ok := False\<rparr>" "[''packs.toml'', ''mnt'']"]
  show ?thesis by simp
qed

text \<open>
  C8, as amended. \<open>Run\<close> returns 0 exactly when the argument parsing, the opening, the
  reading and the decoding of the input document and the mount all succeed and the serve
  loop returns without error; the serve loop has then run and the unmount has been called
  after it, but what the unmount answers has no part in the exit code. Every other run
  returns 1, so a mount failure, a parse failure and a serve error do. After a parse
  failure no mount is attempted, and the failure is reported.
\<close>

theorem Run_exit_code:
  "(fst (Run w args) = 0 \<longleftrightarrow>
      Init_result w args \<noteq> None \<and> Open_ok w \<and> ReadAll_result w \<noteq> None
      \<and> Unmarshal_result w \<noteq> None \<and> Mount_ok w \<and> ServeContext_ok w)
   \<and> (fst (Run w args) \<noteq> 0 \<longleftrightarrow> fst (Run w args) = 1)
   \<and> (fst (Run w args) = 0 \<longrightarrow>
        list_ex is_ServeContext (snd (Run w args))
        \<and> list_ex is_Unmount (dropWhile (\<lambda>e. \<not> is_ServeContext e) (snd (Run w args))))
   \<and> (\<not> Mount_ok w \<longrightarrow> fst (Run w args) = 1)
   \<and> (\<not> ServeContext_ok w \<longrightarrow> fst (Run w args) = 1)
   \<and> (Unmarshal_result w = None \<longrightarrow>
        fst (Run w args) = 1 \<and> \<not> list_ex is_Mount (snd (Run w args)))
   \<and> (list_ex is_Unmarshal (snd (Run w args)) \<and> Unmarshal_result w = None \<longrightarrow>
        EvErrorWithContext \<in> set (dropWhile (\<lambda>e. \<not> is_Unmarshal e) (snd (Run w args))))"
  by (simp add: Run_cases split: option.splits prod.splits)

theorem Run_exit_code_witness:
  "fst (Run world_ok [''packs.toml'', ''mnt'']) = 0
   \<and> list_ex is_ServeContext (snd (Run world_ok [''packs.toml'', ''mnt'']))
   \<and> list_ex is_Unmount (dropWhile (\<lambda>e. \<not> is_ServeContext e)
        (snd (Run world_ok [''packs.toml'', ''mnt''])))
   \<and> \<not> Mount_ok (world_ok\<lparr>Mount_ok := False\<rparr>)
   \<and> fst (Run (world_ok\<lparr>Mount_ok := False\<rparr>) [''packs.toml'', ''mnt'']) = 1
   \<and> \<not> ServeContext_ok (world_ok\<lparr>ServeContext_ok := False\<rparr>)
   \<and> fst (Run (world_ok\<lparr>ServeContext_ok := False\<rparr>) [''packs.toml'', ''mnt'']) = 1
   \<and> Unmarshal_result (world_ok\<lparr>Unmarshal_result := None\<rparr>) = None
   \<and> list_ex is_Unmarshal (snd (Run (world_ok\<lparr>Unmarshal_result := None\<rparr>) [''packs.toml'', ''mnt'']))
   \<and> fst (Run (world_ok\<lparr>Unmarshal_result := None\<rparr>) [''packs.toml'', ''mnt'']) = 1
   \<and> \<not> list_ex is_Mount (snd (Run (world_ok\<lparr>Unmarshal_result := None\<rparr>) [''packs.toml'', ''mnt'']))
   \<and> EvErrorWithContext \<in> set (dropWhile (\<lambda>e. \<not> is_Unmarshal e)
        (snd (Run (world_ok\<lparr>Unmarshal_result := None\<rparr>) [''packs.toml'', ''mnt''])))"
proof -
  have z: "fst (Run world_ok [''packs.toml'', ''mnt'']) = 0"
    using Run_exit_code [of world_ok "[''packs.toml'', ''mnt'']"]
    by (simp add: world_ok_def)
  have u: "list_ex is_Unmarshal
      (snd (Run (world_ok\<lparr>Unmarshal_result := None\<rparr>) [''packs.toml'', ''mnt'']))"
    by (simp add: Run_cases world_ok_def)
  from z u
    Run_exit_code [of world_ok "[''packs.toml'', ''mnt'']"]
    Run_exit_code [of "world_ok\<lparr>Mount_ok := False\<rparr>" "[''packs.toml'', ''mnt'']"]
    Run_exit_code [of "world_ok\<lparr>ServeContext_ok := False\<rparr>" "[''packs.toml'', ''mnt'']"]
    Run_exit_code [of "world_ok\<lparr>Unmarshal_result := None\<rparr>" "[''packs.toml'', ''mnt'']"]
  show ?thesis by simp
qed

text \<open>
  C8 as stated fails where everything succeeds but the unmount: \<open>Run\<close> returns 0 although
  the session did not unmount cleanly, because the deferred call drops the answer of
  \<open>fuse.Unmount\<close>.
\<close>

theorem Run_exit_code_counterexample:
  "fst (Run (world_ok\<lparr>Unmount_ok := False\<rparr>) [''packs.toml'', ''mnt'']) = 0
   \<and> \<not> spec_serves_and_unmounts_cleanly (world_ok\<lparr>Unmount_ok := False\<rparr>) [''packs.toml'', ''mnt'']"
  by (simp add: Run_cases world_ok_def spec_serves_and_unmounts_cleanly_def)

section \<open>The tree is only read\<close>

text \<open>The index and the visit of a map leave the store as it is.\<close>

lemma index_jobs_heap: "snd (run_state (index_jobs r k) h) = h"
  by (simp add: index_jobs_def)

lemma range_jobs_heap: "snd (run_state (range_jobs ord r) h) = h"
  by (simp add: range_jobs_def)

lemma range_files_heap: "snd (run_state (range_files ord r) h) = h"
  by (simp add: range_files_def)

text \<open>
  An assignment does not: in the store of Scenario A, an assignment to the file map at
  address 1 changes what is observed through the group map at address 0.
\<close>

lemma assign_files_observed:
  "observed heap_A (Some 0) ''web'' ''job.conf'' = Some ''A''"
  "observed (snd (run_state (assign_files 1 ''job.conf'' ''X'') heap_A)) (Some 0)
     ''web'' ''job.conf'' = Some ''X''"
  by (simp_all add: observed_def assign_files_def State_Monad.update_def jobs_at_def
      files_at_def heap_A_def go_index_empty go_index_update)

text \<open>The methods of the source leave the store as it is.\<close>

lemma RootDir_Lookup_h_heap: "snd (run_state (RootDir_Lookup_h d name) h) = h"
  by (simp add: RootDir_Lookup_h_def index_jobs_def split: option.splits)

lemma RootDir_ReadDirAll_h_heap: "snd (run_state (RootDir_ReadDirAll_h ord d) h) = h"
  by (simp add: RootDir_ReadDirAll_h_def range_jobs_def)

lemma JobDir_ReadDirAll_h_heap: "snd (run_state (JobDir_ReadDirAll_h ord j) h) = h"
  by (simp add: JobDir_ReadDirAll_h_def range_files_def)

lemma Node_Attr_h_heap: "snd (run_state (Node_Attr_h n attr) h) = h"
  by (cases n) (simp_all add: RootDir_Attr_h_def JobDir_Attr_h_def RenderFS_Attr_h_def)

lemma Node_Lookup_h_heap:
  assumes "Node_Lookup_h n name = Some p"
  shows "snd (run_state p h) = h"
  using assms by (cases n) (auto simp: RootDir_Lookup_h_heap)

lemma Node_ReadDirAll_h_heap:
  assumes "Node_ReadDirAll_h ord n = Some p"
  shows "snd (run_state p h) = h"
  using assms by (cases n) (auto simp: RootDir_ReadDirAll_h_heap JobDir_ReadDirAll_h_heap)

lemma Node_Read_h_heap:
  assumes "Node_Read_h n req resp = Some p"
  shows "snd (run_state p h) = h"
  using assms by (cases n) (auto simp: RenderFS_Read_h_def)

lemma RootEntry_Root_h_heap: "snd (run_state (RootEntry_Root_h r) h) = h"
  by (simp add: RootEntry_Root_h_def)

lemma Session_start_heap: "heap (Session_start h r) = h"
  by (simp add: Session_start_def RootEntry_Root_h_def)

lemma Session_serve_heap: "heap (snd (Session_serve s rq)) = heap s"
proof (cases rq)
  case (AttrRequest i attr)
  then show ?thesis
    using Node_Attr_h_heap [of "nodes s ! i" attr "heap s"]
    by (auto split: prod.splits)
next
  case (LookupRequest i name)
  then show ?thesis
    using Node_Lookup_h_heap [of "nodes s ! i" name _ "heap s"]
    by (auto split: option.splits prod.splits)
next
  case (ReadDirAllRequest i ord)
  then show ?thesis
    using Node_ReadDirAll_h_heap [of ord "nodes s ! i" _ "heap s"]
    by (auto split: option.splits prod.splits)
next
  case (ReadDataRequest i req resp)
  then show ?thesis
    using Node_Read_h_heap [of "nodes s ! i" req resp _ "heap s"]
    by (auto split: option.splits prod.splits)
qed

lemma Session_serve_all_heap: "heap (Session_serve_all s rqs) = heap s"
  by (induction rqs arbitrary: s) (simp_all add: Session_serve_heap)

text \<open>Nodes are only added: a node keeps its position for the rest of the session.\<close>

lemma Session_serve_nodes_prefix:
  "\<exists>ns. nodes (snd (Session_serve s rq)) = nodes s @ ns"
  by (cases rq) (auto split: option.splits prod.splits)

lemma Session_serve_all_nodes_prefix:
  "\<exists>ns. nodes (Session_serve_all s rqs) = nodes s @ ns"
proof (induction rqs arbitrary: s)
  case Nil
  then show ?case by simp
next
  case (Cons rq rqs)
  obtain ns where a: "nodes (snd (Session_serve s rq)) = nodes s @ ns"
    using Session_serve_nodes_prefix by blast
  obtain ms where "nodes (Session_serve_all (snd (Session_serve s rq)) rqs)
      = nodes (snd (Session_serve s rq)) @ ms"
    using Cons.IH by blast
  with a show ?case by simp
qed

lemma Session_serve_reply_cong:
  assumes "Request_node rq < length (nodes s)"
    and "nodes s' = nodes s @ ns" and "heap s' = heap s"
  shows "fst (Session_serve s' rq) = fst (Session_serve s rq)"
  using assms by (cases rq) (auto simp: nth_append split: option.splits prod.splits)

lemma Session_replies_unchanged:
  assumes "Request_node rq < length (nodes s)"
  shows "fst (Session_serve (Session_serve_all s rqs) rq) = fst (Session_serve s rq)"
proof -
  obtain ns where "nodes (Session_serve_all s rqs) = nodes s @ ns"
    using Session_serve_all_nodes_prefix by blast
  from Session_serve_reply_cong [OF assms this Session_serve_all_heap] show ?thesis .
qed

section \<open>The two views of the methods agree\<close>

lemma go_index_values: "go_index (go_map_values f m) k = map_option f (go_index m k)"
  by (simp add: go_index_def DAList.lookup.rep_eq go_map_values.rep_eq map_ran_conv)

lemma map_filter_map_ran:
  "List.map_filter (\<lambda>k. map_option (Pair k) (map_of (AList.map_ran (\<lambda>_. f) xs) k)) ord
     = AList.map_ran (\<lambda>_. f) (List.map_filter (\<lambda>k. map_option (Pair k) (map_of xs k)) ord)"
  by (induction ord) (auto simp: map_ran_conv split: option.splits)

lemma go_range_values:
  "go_range ord (go_map_values f m) = AList.map_ran (\<lambda>_. f) (go_range ord m)"
  by (simp add: go_range_def Let_def go_map_values.rep_eq map_filter_map_ran dom_map_ran)

lemma RootDir_ReadDirAll_loop_values:
  "RootDir_ReadDirAll_loop (AList.map_ran g xs) rV = RootDir_ReadDirAll_loop xs rV"
  by (simp add: RootDir_ReadDirAll_loop_map map_ran_def comp_def case_prod_beta)

lemma RootDir_Lookup_h_agrees:
  "map_prod (map_option (Node_of h)) id (fst (run_state (RootDir_Lookup_h d name) h))
     = RootDir_Lookup \<lparr>RootDir.jobs = tree_of h (jobs_ref d)\<rparr> name"
  by (simp add: RootDir_Lookup_h_def index_jobs_def RootDir_Lookup_def tree_of_def
      go_index_values split: option.splits)

lemma RootDir_ReadDirAll_h_agrees:
  "fst (run_state (RootDir_ReadDirAll_h ord d) h)
     = RootDir_ReadDirAll ord \<lparr>RootDir.jobs = tree_of h (jobs_ref d)\<rparr>"
  by (simp add: RootDir_ReadDirAll_h_def range_jobs_def RootDir_ReadDirAll_def tree_of_def
      go_range_values RootDir_ReadDirAll_loop_values)

lemma JobDir_ReadDirAll_h_agrees:
  "fst (run_state (JobDir_ReadDirAll_h ord j) h)
     = JobDir_ReadDirAll ord \<lparr>job = PackEntry_of h (job_ref j)\<rparr>"
  by (simp add: JobDir_ReadDirAll_h_def range_files_def JobDir_ReadDirAll_def PackEntry_of_def)

lemma Node_Attr_h_agrees:
  "fst (run_state (Node_Attr_h n attr) h) = Node_Attr (Node_of h n) attr"
  by (cases n)
    (simp_all add: RootDir_Attr_h_def JobDir_Attr_h_def RenderFS_Attr_h_def
      RootDir_Attr_def JobDir_Attr_def RenderFS_Attr_def)

lemma Node_Lookup_h_agrees:
  "map_option (\<lambda>p. map_prod (map_option (Node_of h)) id (fst (run_state p h)))
     (Node_Lookup_h n name) = Node_Lookup (Node_of h n) name"
  by (cases n) (simp_all add: RootDir_Lookup_h_agrees)

lemma Node_ReadDirAll_h_agrees:
  "map_option (\<lambda>p. fst (run_state p h)) (Node_ReadDirAll_h ord n)
     = Node_ReadDirAll ord (Node_of h n)"
  by (cases n) (simp_all add: RootDir_ReadDirAll_h_agrees JobDir_ReadDirAll_h_agrees)

lemma Node_Read_h_agrees:
  "map_option (\<lambda>p. fst (run_state p h)) (Node_Read_h n req resp)
     = Node_Read (Node_of h n) req resp"
  by (cases n) (simp_all add: RenderFS_Read_h_def RenderFS_Read_def)

lemma observed_tree_of:
  "observed h r g f =
     (case go_index (tree_of h r) g of None \<Rightarrow> None | Some e \<Rightarrow> go_index (files e) f)"
  by (simp add: observed_def tree_of_def go_index_values PackEntry_of_def split: option.splits)

text \<open>No request sequence ever obtains a File node: nothing in the source builds one.\<close>

lemma Session_serve_no_File_node:
  assumes "\<not> list_ex is_RenderFS_at (nodes s)"
  shows "\<not> list_ex is_RenderFS_at (nodes (snd (Session_serve s rq)))"
proof (cases rq)
  case (LookupRequest i name)
  show ?thesis
  proof (cases "nodes s ! i")
    case (RootDir_at d)
    with LookupRequest assms show ?thesis
      by (auto simp: RootDir_Lookup_h_def index_jobs_def list_ex_iff
          split: option.splits prod.splits)
  qed (use LookupRequest assms in \<open>auto split: option.splits prod.splits\<close>)
qed (use assms in \<open>auto split: option.splits prod.splits\<close>)

lemma Session_no_File_node:
  "\<not> list_ex is_RenderFS_at (nodes (Session_serve_all (Session_start h r) rqs))"
proof -
  have "\<not> list_ex is_RenderFS_at (nodes (Session_serve_all s rqs))"
    if "\<not> list_ex is_RenderFS_at (nodes s)" for s
    using that by (induction rqs arbitrary: s) (simp_all add: Session_serve_no_File_node)
  moreover have "\<not> list_ex is_RenderFS_at (nodes (Session_start h r))"
    by (simp add: Session_start_def RootEntry_Root_h_def)
  ultimately show ?thesis by blast
qed

text \<open>
  C9. Every node operation leaves the group-to-file-to-content mapping as it was. The
  maps are held in a store that every operation takes and returns; after every sequence
  of \<open>Attr\<close>, \<open>Lookup\<close>, \<open>ReadDirAll\<close> and \<open>Read\<close> requests, on any nodes, in any
  order and with any order of visit in the listings, the store is the one the session
  started with, so the mapping observed through the tree's reference is the mapping
  observed before, and a request to a node that existed before the sequence is answered
  as it would have been before.
\<close>

theorem Session_tree_unchanged:
  "snd (run_state (Node_Attr_h n attr) h) = h
   \<and> snd (run_state (RootDir_Lookup_h d name) h) = h
   \<and> snd (run_state (RootDir_ReadDirAll_h ord d) h) = h
   \<and> snd (run_state (JobDir_ReadDirAll_h ord j) h) = h
   \<and> snd (run_state (RenderFS_Read_h f req resp) h) = h
   \<and> heap (Session_serve_all s rqs) = heap s
   \<and> heap (Session_serve_all (Session_start h r) rqs) = h
   \<and> observed (heap (Session_serve_all (Session_start h r) rqs)) (entry_jobs r)
       = observed h (entry_jobs r)
   \<and> (Request_node rq < length (nodes s) \<longrightarrow>
        fst (Session_serve (Session_serve_all s rqs) rq) = fst (Session_serve s rq))"
  by (simp add: Node_Attr_h_heap RootDir_Lookup_h_heap RootDir_ReadDirAll_h_heap
      JobDir_ReadDirAll_h_heap RenderFS_Read_h_def Session_serve_all_heap Session_start_heap
      Session_replies_unchanged)

theorem Session_tree_unchanged_witness:
  "Request_node (ReadDirAllRequest 0 [''db'', ''web'']) < length (nodes session_A)
   \<and> heap (Session_serve_all session_A requests_A) = heap_A
   \<and> observed (heap (Session_serve_all session_A requests_A)) (Some 0) ''web'' ''job.conf''
       = Some ''A''
   \<and> fst (Session_serve (Session_serve_all session_A requests_A)
        (ReadDirAllRequest 0 [''db'', ''web'']))
       = ReadDirAllReply
           [\<lparr>Dirent.Inode = 0, Type = DT_Dir, Name = ''db''\<rparr>,
            \<lparr>Dirent.Inode = 0, Type = DT_Dir, Name = ''web''\<rparr>] None"
proof -
  have n: "nodes session_A = [RootDir_at \<lparr>jobs_ref = Some 0\<rparr>]"
    by (simp add: session_A_def Session_start_def RootEntry_Root_h_def)
  have t: "heap session_A = heap_A"
    by (simp add: session_A_def Session_start_def RootEntry_Root_h_def)
  have j: "jobs_at heap_A (Some 0)
      = DAList.update ''db'' \<lparr>files_ref = Some 2\<rparr>
          (DAList.update ''web'' \<lparr>files_ref = Some 1\<rparr> DAList.empty)"
    by (simp add: jobs_at_def heap_A_def)
  have b: "fst (Session_serve session_A (ReadDirAllRequest 0 [''db'', ''web'']))
       = ReadDirAllReply
           [\<lparr>Dirent.Inode = 0, Type = DT_Dir, Name = ''db''\<rparr>,
            \<lparr>Dirent.Inode = 0, Type = DT_Dir, Name = ''web''\<rparr>] None"
    by (simp add: n t j RootDir_ReadDirAll_h_def range_jobs_def go_range_eval
        DAList.update.rep_eq DAList.empty.rep_eq Dirent_zero_def insert_commute)
  have o: "observed heap_A (Some 0) ''web'' ''job.conf'' = Some ''A''"
    by (simp add: observed_def jobs_at_def files_at_def heap_A_def go_index_empty go_index_update)
  from n t b o
    Session_tree_unchanged [where s = session_A and rqs = requests_A and h = heap_A
      and r = "\<lparr>entry_conf = ''packs.toml'', entry_jobs = Some 0\<rparr>"
      and rq = "ReadDirAllRequest 0 [''db'', ''web'']"]
  show ?thesis by simp
qed

end
